theory Spec2Isabelle
  imports Complex_Main
begin

section \<open>Python values\<close>

text \<open>
  The driver's license scanner is one Flask handler, \<^verbatim>\<open>extract_text\<close> in \<^verbatim>\<open>app.py\<close>. It
  reads a JSON body, calls a remote completion service twice and answers with JSON.

  A Python \<^verbatim>\<open>str\<close> is a sequence of Unicode code points, so a string is a list of
  natural numbers; \<open>py\<close> embeds an ASCII literal.
\<close>

type_synonym pystr = "nat list"

definition py :: "string \<Rightarrow> pystr" where
  "py s = map of_char s"

definition COLON :: nat where
  "COLON = of_char (CHR '':'')"

definition COMMA :: nat where
  "COMMA = of_char (CHR '','')"

definition NEWLINE :: nat where
  "NEWLINE = of_char (CHR 0x0A)"

definition QUOTE :: nat where
  "QUOTE = of_char (CHR 0x27)"

text \<open>
  The code points that \<^verbatim>\<open>str.strip()\<close> removes: those for which \<^verbatim>\<open>str.isspace\<close> holds.
\<close>

definition isspace :: "nat \<Rightarrow> bool" where
  "isspace c \<longleftrightarrow>
     (9 \<le> c \<and> c \<le> 13) \<or> (28 \<le> c \<and> c \<le> 32) \<or> c = 133 \<or> c = 160 \<or> c = 5760 \<or>
     (8192 \<le> c \<and> c \<le> 8202) \<or> c = 8232 \<or> c = 8233 \<or> c = 8239 \<or> c = 8287 \<or> c = 12288"

text \<open>
  Exceptions of class \<^verbatim>\<open>Exception\<close>, each with the text \<^verbatim>\<open>str(e)\<close> gives. \<open>Raised\<close>
  stands for whatever a library raises (Flask reading the body, the OpenAI client).
\<close>

datatype exn = IndexError pystr | TypeError pystr | AttributeError pystr | Raised pystr

fun str_exn :: "exn \<Rightarrow> pystr" where
  "str_exn (IndexError m) = m"
| "str_exn (TypeError m) = m"
| "str_exn (AttributeError m) = m"
| "str_exn (Raised m) = m"

datatype pyfloat = Finite rat | PosInf | NegInf | NaN

text \<open>
  The values JSON parsing yields and \<^verbatim>\<open>jsonify\<close> accepts. A dict is an association list
  in insertion order.
\<close>

datatype pyval =
    PNone
  | PBool bool
  | PInt int
  | PFloat pyfloat
  | PStr pystr
  | PList "pyval list"
  | PDict "(pystr \<times> pyval) list"

fun truthy :: "pyval \<Rightarrow> bool" where
  "truthy PNone = False"
| "truthy (PBool b) = b"
| "truthy (PInt i) = (i \<noteq> 0)"
| "truthy (PFloat x) = (x \<noteq> Finite 0)"
| "truthy (PStr s) = (s \<noteq> [])"
| "truthy (PList xs) = (xs \<noteq> [])"
| "truthy (PDict d) = (d \<noteq> [])"

fun type_name :: "pyval \<Rightarrow> pystr" where
  "type_name PNone = py ''NoneType''"
| "type_name (PBool b) = py ''bool''"
| "type_name (PInt i) = py ''int''"
| "type_name (PFloat x) = py ''float''"
| "type_name (PStr s) = py ''str''"
| "type_name (PList xs) = py ''list''"
| "type_name (PDict d) = py ''dict''"

subsection \<open>String and container operations\<close>

definition startswith :: "pystr \<Rightarrow> pystr \<Rightarrow> bool" where
  "startswith s p \<longleftrightarrow> take (length p) s = p"

text \<open>\<^verbatim>\<open>s.split(sep)\<close> for a separator of one character: never the empty list.\<close>

fun py_split :: "nat \<Rightarrow> pystr \<Rightarrow> pystr list" where
  "py_split sep [] = [[]]"
| "py_split sep (c # cs) =
     (if c = sep then [] # py_split sep cs
      else (case py_split sep cs of [] \<Rightarrow> [[c]] | w # ws \<Rightarrow> (c # w) # ws))"

text \<open>\<^verbatim>\<open>s.split(sep, 1)\<close>: at most one cut, at the first separator.\<close>

definition py_split1 :: "nat \<Rightarrow> pystr \<Rightarrow> pystr list" where
  "py_split1 sep s =
     (if sep \<in> set s
      then [takeWhile (\<lambda>c. c \<noteq> sep) s, tl (dropWhile (\<lambda>c. c \<noteq> sep) s)]
      else [s])"

definition py_strip :: "pystr \<Rightarrow> pystr" where
  "py_strip s = rev (dropWhile isspace (rev (dropWhile isspace s)))"

text \<open>\<^verbatim>\<open>xs[i]\<close> for a constant index \<open>i \<ge> 0\<close>: out of range raises.\<close>

definition py_index :: "'a list \<Rightarrow> nat \<Rightarrow> exn + 'a" where
  "py_index xs i =
     (if i < length xs then Inr (xs ! i) else Inl (IndexError (py ''list index out of range'')))"

text \<open>
  \<^verbatim>\<open>d[k] = v\<close>: an existing key keeps its place and takes the new value, a new key goes
  to the end.
\<close>

fun dict_set :: "('k \<times> 'v) list \<Rightarrow> 'k \<Rightarrow> 'v \<Rightarrow> ('k \<times> 'v) list" where
  "dict_set [] k v = [(k, v)]"
| "dict_set ((k', v') # d) k v =
     (if k' = k then (k, v) # d else (k', v') # dict_set d k v)"

section \<open>Parsing the structured text (lines 194 to 203)\<close>

text \<open>
  The body of the loop over \<^verbatim>\<open>license_info.split('\n')\<close>: a line with a colon is cut at
  its first colon, both parts are stripped and stored in \<^verbatim>\<open>formatted_data\<close>.
\<close>

definition parse_line :: "(pystr \<times> pystr) list \<Rightarrow> pystr \<Rightarrow> exn + (pystr \<times> pystr) list" where
  "parse_line formatted_data line =
     (if COLON \<in> set line then
        (let parts = py_split1 COLON line in
         case py_index parts 0 of
           Inl e \<Rightarrow> Inl e
         | Inr p0 \<Rightarrow>
            (case py_index parts 1 of
               Inl e \<Rightarrow> Inl e
             | Inr p1 \<Rightarrow> Inr (dict_set formatted_data (py_strip p0) (py_strip p1))))
      else Inr formatted_data)"

fun parse_lines :: "(pystr \<times> pystr) list \<Rightarrow> pystr list \<Rightarrow> exn + (pystr \<times> pystr) list" where
  "parse_lines formatted_data [] = Inr formatted_data"
| "parse_lines formatted_data (line # lines) =
     (case parse_line formatted_data line of
        Inl e \<Rightarrow> Inl e
      | Inr d \<Rightarrow> parse_lines d lines)"

definition parse_license_info :: "pystr \<Rightarrow> exn + (pystr \<times> pystr) list" where
  "parse_license_info license_info = parse_lines [] (py_split NEWLINE license_info)"

text \<open>
  The same mapping in the words of the specification: the lines with a colon, each cut at
  its first colon into a trimmed key and a trimmed value, in the order of the text; a key
  is looked up from the end, so that the last occurrence wins.
\<close>

definition spec_entries :: "pystr \<Rightarrow> (pystr \<times> pystr) list" where
  "spec_entries text =
     map (\<lambda>line. (py_strip (takeWhile (\<lambda>c. c \<noteq> COLON) line),
                  py_strip (tl (dropWhile (\<lambda>c. c \<noteq> COLON) line))))
         (filter (\<lambda>line. COLON \<in> set line) (py_split NEWLINE text))"

definition spec_lookup :: "pystr \<Rightarrow> pystr \<Rightarrow> pystr option" where
  "spec_lookup text key = map_of (rev (spec_entries text)) key"

section \<open>The handler of POST /extract\<close>

subsection \<open>Reading the request (lines 48 to 69)\<close>

text \<open>
  A stage of the handler goes on with a value, returns the dict it hands to
  \<^verbatim>\<open>jsonify\<close>, or raises.
\<close>

datatype 'a flow = Continue 'a | Return pyval | Raise exn

definition no_attribute :: "pyval \<Rightarrow> string \<Rightarrow> exn" where
  "no_attribute v a =
     AttributeError ([QUOTE] @ type_name v @ [QUOTE] @ py '' object has no attribute '' @
                     [QUOTE] @ py a @ [QUOTE])"

definition no_len :: "pyval \<Rightarrow> exn" where
  "no_len v =
     TypeError (py ''object of type '' @ [QUOTE] @ type_name v @ [QUOTE] @ py '' has no len()'')"

text \<open>\<^verbatim>\<open>data.keys()\<close>, evaluated for the log line 53: only a dict has it.\<close>

fun py_keys :: "pyval \<Rightarrow> exn + pystr list" where
  "py_keys (PDict d) = Inr (map fst d)"
| "py_keys v = Inl (no_attribute v ''keys'')"

text \<open>
  \<^verbatim>\<open>data['image']\<close> and \<^verbatim>\<open>data.get('force_extraction', False)\<close>, reached with a dict
  only. The \<^verbatim>\<open>KeyError\<close> of a missing key is a \<open>Raised\<close> with the quoted key for its
  text.
\<close>

fun py_getitem :: "pyval \<Rightarrow> string \<Rightarrow> exn + pyval" where
  "py_getitem (PDict d) k =
     (case map_of d (py k) of
        None \<Rightarrow> Inl (Raised ([QUOTE] @ py k @ [QUOTE]))
      | Some v \<Rightarrow> Inr v)"
| "py_getitem v k = Inl (TypeError ([QUOTE] @ type_name v @ [QUOTE] @ py '' object is not subscriptable''))"

fun py_get :: "pyval \<Rightarrow> string \<Rightarrow> pyval \<Rightarrow> exn + pyval" where
  "py_get (PDict d) k dflt = Inr (case map_of d (py k) of None \<Rightarrow> dflt | Some v \<Rightarrow> v)"
| "py_get v k dflt = Inl (no_attribute v ''get'')"

text \<open>
  Lines 64 to 66 on a string: \<^verbatim>\<open>image_data.split(',')[1]\<close> when the string starts with
  \<^verbatim>\<open>data:image\<close>.
\<close>

definition strip_data_url :: "pystr \<Rightarrow> exn + pystr" where
  "strip_data_url image_data =
     (if startswith image_data (py ''data:image'')
      then py_index (py_split COMMA image_data) 1
      else Inr image_data)"

text \<open>
  Lines 61 to 66 on any value of the key \<^verbatim>\<open>image\<close>: \<^verbatim>\<open>len(image_data)\<close> raises on a
  value without a length, \<^verbatim>\<open>image_data.startswith\<close> on a list or a dict.
\<close>

fun image_of :: "pyval \<Rightarrow> exn + pystr" where
  "image_of (PStr s) = strip_data_url s"
| "image_of (PList xs) = Inl (no_attribute (PList xs) ''startswith'')"
| "image_of (PDict d) = Inl (no_attribute (PDict d) ''startswith'')"
| "image_of v = Inl (no_len v)"

text \<open>
  The argument is what \<^verbatim>\<open>request.json\<close> evaluates to: Flask raises when the body is
  missing, is not declared as JSON or does not parse, and yields the parsed value
  otherwise. The result is the image string and the value of \<^verbatim>\<open>force_extraction\<close>.
\<close>

definition read_request :: "exn + pyval \<Rightarrow> (pystr \<times> pyval) flow" where
  "read_request request_json =
     (case request_json of
        Inl ex \<Rightarrow> Raise ex
      | Inr data \<Rightarrow>
          if \<not> truthy data then
            Return (PDict [(py ''status'', PStr (py ''error'')),
                           (py ''message'', PStr (py ''No JSON data provided''))])
          else
            (case py_keys data of
               Inl ex \<Rightarrow> Raise ex
             | Inr keys \<Rightarrow>
                 if py ''image'' \<notin> set keys then
                   Return (PDict [(py ''status'', PStr (py ''error'')),
                                  (py ''message'', PStr (py ''No image data provided''))])
                 else
                   (case py_getitem data ''image'' of
                      Inl ex \<Rightarrow> Raise ex
                    | Inr image_value \<Rightarrow>
                        (case image_of image_value of
                           Inl ex \<Rightarrow> Raise ex
                         | Inr image_data \<Rightarrow>
                             (case py_get data ''force_extraction'' (PBool False) of
                                Inl ex \<Rightarrow> Raise ex
                              | Inr force_extraction \<Rightarrow>
                                  Continue (image_data, force_extraction))))))"

subsection \<open>The remote completion service\<close>

text \<open>
  A completion is read through \<^verbatim>\<open>response.choices[0].message.content\<close> only: it is the
  list of its choices' contents, each a string or \<^verbatim>\<open>None\<close>.

  The environment of one request: \<open>remote prior kwargs\<close> is the outcome of
  \<^verbatim>\<open>client.chat.completions.create(**kwargs)\<close> after the calls \<open>prior\<close> of this request;
  the three durations are the floats \<^verbatim>\<open>time.time() - start\<close> of lines 104, 175 and 211.
  A finite float is a rational number.
\<close>

type_synonym completion = "pystr option list"

record env =
  remote :: "pyval list \<Rightarrow> pyval \<Rightarrow> exn + completion"
  extraction_time :: rat
  license_time :: rat
  total_time :: rat

definition call_remote ::
  "env \<Rightarrow> pyval list \<Rightarrow> pyval \<Rightarrow> (exn + completion) \<times> pyval list" where
  "call_remote e calls kwargs = (remote e calls kwargs, calls @ [kwargs])"

text \<open>Line 108 and the \<^verbatim>\<open>len\<close> of line 109 (lines 179 and 180 in the second step).\<close>

definition content_text :: "completion \<Rightarrow> exn + pystr" where
  "content_text response =
     (case py_index response 0 of
        Inl ex \<Rightarrow> Inl ex
      | Inr content \<Rightarrow>
          (case content of
             None \<Rightarrow> Inl (no_len PNone)
           | Some text \<Rightarrow> Inr text))"

subsection \<open>Step 1: text extraction (lines 75 to 134)\<close>

definition EXTRACTION_SYSTEM_PROMPT :: pystr where
  "EXTRACTION_SYSTEM_PROMPT =
     py ''You are a specialized assistant that extracts text from driver's license images.'' @ [NEWLINE] @
     py ''                        '' @ [NEWLINE] @
     py ''                        First, identify the driver's license in the image - it will be a rectangular card with text and possibly a photo.'' @ [NEWLINE] @
     py ''                        Even if the license only takes up a small portion of the image or has a busy background, focus only on the license.'' @ [NEWLINE] @
     py ''                        '' @ [NEWLINE] @
     py ''                        Once you've located the license in the image:'' @ [NEWLINE] @
     py ''                        1. Extract all visible text from ONLY the license portion'' @ [NEWLINE] @
     py ''                        2. Ignore any text that is not on the license itself'' @ [NEWLINE] @
     py ''                        3. Format the extracted text clearly'' @ [NEWLINE] @
     py ''                        '' @ [NEWLINE] @
     py ''                        If you cannot find a driver's license in the image, respond with only: \"NO_LICENSE_DETECTED\"'' @ [NEWLINE] @
     py ''                        ''"

definition LICENSE_SYSTEM_PROMPT :: pystr where
  "LICENSE_SYSTEM_PROMPT =
     py ''You are a specialized assistant that extracts driver's license information from text.'' @ [NEWLINE] @
     py ''                        Analyze the following text and extract structured information for these fields if present:'' @ [NEWLINE] @
     py ''                        - LIC# (License Number)'' @ [NEWLINE] @
     py ''                        - Name (Full name as it appears)'' @ [NEWLINE] @
     py ''                        - DOB (Date of Birth)'' @ [NEWLINE] @
     py ''                        - Issue Date'' @ [NEWLINE] @
     py ''                        - Expiration Date'' @ [NEWLINE] @
     py ''                        - Address (Full address including city, state, zip)'' @ [NEWLINE] @
     py ''                        - Sex'' @ [NEWLINE] @
     py ''                        - Height'' @ [NEWLINE] @
     py ''                        - Weight'' @ [NEWLINE] @
     py ''                        - Eyes (Eye color)'' @ [NEWLINE] @
     py ''                        - Restriction'' @ [NEWLINE] @
     py ''                        - Class (License class)'' @ [NEWLINE] @
     py ''                        - DD# (Document Discriminator Number)'' @ [NEWLINE] @
     py ''                        - Donor status'' @ [NEWLINE] @
     py ''                        - Revision date'' @ [NEWLINE] @
     py ''                        '' @ [NEWLINE] @
     py ''                        Format your response as key-value pairs with a colon between the key and value, one per line.'' @ [NEWLINE] @
     py ''                        If you can't find information for a field, don't include it.'' @ [NEWLINE] @
     py ''                        Don't make up information or guess. Extract only what's clearly present in the text.''"

definition step1_request :: "pystr \<Rightarrow> pyval" where
  "step1_request image_data =
     PDict [
       (py ''model'', PStr (py ''gpt-4o'')),
       (py ''messages'', PList [
          PDict [(py ''role'', PStr (py ''system'')),
                 (py ''content'', PStr EXTRACTION_SYSTEM_PROMPT)],
          PDict [(py ''role'', PStr (py ''user'')),
                 (py ''content'', PList [
                    PDict [(py ''type'', PStr (py ''text'')),
                           (py ''text'', PStr (py ''Extract all text from the driver's license in this image, ignoring any background:''))],
                    PDict [(py ''type'', PStr (py ''image_url'')),
                           (py ''image_url'',
                              PDict [(py ''url'', PStr (py ''data:image/jpeg;base64,'' @ image_data))])]])]]),
       (py ''max_tokens'', PInt 500)]"

definition suggestions :: "pyval list" where
  "suggestions =
     [PStr (py ''Make sure your driver's license is visible in the image''),
      PStr (py ''Ensure good lighting with minimal glare''),
      PStr (py ''Hold the license parallel to the camera''),
      PStr (py ''Use a contrasting background'')]"

definition step1 :: "env \<Rightarrow> pyval list \<Rightarrow> pystr \<Rightarrow> pyval \<Rightarrow> pystr flow \<times> pyval list" where
  "step1 e calls image_data force_extraction =
     (case call_remote e calls (step1_request image_data) of
        (outcome, calls') \<Rightarrow>
          (case (case outcome of Inl ex \<Rightarrow> Inl ex | Inr response \<Rightarrow> content_text response) of
             Inl ex \<Rightarrow>
               (Return (PDict [(py ''status'', PStr (py ''error'')),
                               (py ''message'',
                                  PStr (py ''OpenAI text extraction failed: '' @ str_exn ex))]),
                calls')
           | Inr extracted_text \<Rightarrow>
               if py_strip extracted_text = py ''NO_LICENSE_DETECTED'' \<and> \<not> truthy force_extraction
               then
                 (Return (PDict [(py ''status'', PStr (py ''error'')),
                                 (py ''message'',
                                    PStr (py ''Could not clearly detect a driver's license in the image'')),
                                 (py ''analysis'', PDict [(py ''license_detected'', PBool False)]),
                                 (py ''suggestions'', PList suggestions)]),
                  calls')
               else (Continue extracted_text, calls')))"

subsection \<open>Step 2: structuring (lines 140 to 190)\<close>

definition step2_request :: "pystr \<Rightarrow> pyval" where
  "step2_request extracted_text =
     PDict [
       (py ''model'', PStr (py ''gpt-4o'')),
       (py ''messages'', PList [
          PDict [(py ''role'', PStr (py ''system'')),
                 (py ''content'', PStr LICENSE_SYSTEM_PROMPT)],
          PDict [(py ''role'', PStr (py ''user'')),
                 (py ''content'',
                    PStr (py ''Extract driver's license information from this text:''
                          @ [NEWLINE, NEWLINE] @ extracted_text))]]),
       (py ''max_tokens'', PInt 500)]"

definition step2 :: "env \<Rightarrow> pyval list \<Rightarrow> pystr \<Rightarrow> pystr flow \<times> pyval list" where
  "step2 e calls extracted_text =
     (case call_remote e calls (step2_request extracted_text) of
        (outcome, calls') \<Rightarrow>
          (case (case outcome of Inl ex \<Rightarrow> Inl ex | Inr response \<Rightarrow> content_text response) of
             Inl ex \<Rightarrow>
               (Return (PDict [(py ''status'', PStr (py ''error'')),
                               (py ''message'',
                                  PStr (py ''OpenAI license info extraction failed: '' @ str_exn ex)),
                               (py ''raw_text'', PStr extracted_text)]),
                calls')
           | Inr license_info \<Rightarrow> (Continue license_info, calls')))"

subsection \<open>Assembling the answer (lines 194 to 225)\<close>

text \<open>
  \<^verbatim>\<open>f"{x:.2f}"\<close> on a finite float: the exact value rounded to hundredths, ties to the even
  neighbour, printed with its sign, its integer digits, a point and two digits.
\<close>

definition round_half_even :: "rat \<Rightarrow> int" where
  "round_half_even x =
     (let f = \<lfloor>x\<rfloor>; r = x - of_int f
      in if r < 1 / 2 then f
         else if 1 / 2 < r then f + 1
         else if even f then f
         else f + 1)"

fun digits :: "nat \<Rightarrow> pystr" where
  "digits n = (if n < 10 then [48 + n] else digits (n div 10) @ [48 + n mod 10])"

declare digits.simps [simp del]

definition format_2f :: "rat \<Rightarrow> pystr" where
  "format_2f x =
     (let n = nat (round_half_even (\<bar>x\<bar> * 100))
      in (if x < 0 then py ''-'' else []) @ digits (n div 100) @ py ''.'' @
         [48 + n mod 100 div 10, 48 + n mod 10])"

definition assemble :: "env \<Rightarrow> pystr \<Rightarrow> pystr \<Rightarrow> exn + pyval" where
  "assemble e extracted_text license_info =
     (case parse_license_info license_info of
        Inl ex \<Rightarrow> Inl ex
      | Inr parsed \<Rightarrow>
          (let formatted_data =
                 (if parsed = [] then [(py ''Raw Extracted Text'', extracted_text)] else parsed)
           in Inr (PDict [
                (py ''status'', PStr (py ''success'')),
                (py ''data'', PDict (map (\<lambda>kv. (fst kv, PStr (snd kv))) formatted_data)),
                (py ''raw_text'', PStr extracted_text),
                (py ''license_info'', PStr license_info),
                (py ''processing_time'', PDict [
                   (py ''extraction_time'', PStr (format_2f (extraction_time e) @ py ''s'')),
                   (py ''license_processing_time'', PStr (format_2f (license_time e) @ py ''s'')),
                   (py ''total_time'', PStr (format_2f (total_time e) @ py ''s''))])])))"

subsection \<open>The handler\<close>

text \<open>
  \<^verbatim>\<open>jsonify\<close> makes a response with the dict as its body and the default status 200.
  The body is kept as the dict itself; how Flask writes it out as text (the order of the
  keys there) is not part of the model, and neither is the logging.
\<close>

record http_response =
  body :: pyval
  status_code :: nat

definition jsonify :: "pyval \<Rightarrow> http_response" where
  "jsonify j = \<lparr>body = j, status_code = 200\<rparr>"

text \<open>
  The body of the outer \<^verbatim>\<open>try\<close>: the dict it returns or the exception that leaves it,
  with the remote calls made.
\<close>

definition extract_text_try :: "env \<Rightarrow> exn + pyval \<Rightarrow> (exn + pyval) \<times> pyval list" where
  "extract_text_try e request_json =
     (case read_request request_json of
        Raise ex \<Rightarrow> (Inl ex, [])
      | Return j \<Rightarrow> (Inr j, [])
      | Continue (image_data, force_extraction) \<Rightarrow>
          (case step1 e [] image_data force_extraction of
             (Raise ex, calls) \<Rightarrow> (Inl ex, calls)
           | (Return j, calls) \<Rightarrow> (Inr j, calls)
           | (Continue extracted_text, calls) \<Rightarrow>
               (case step2 e calls extracted_text of
                  (Raise ex, calls') \<Rightarrow> (Inl ex, calls')
                | (Return j, calls') \<Rightarrow> (Inr j, calls')
                | (Continue license_info, calls') \<Rightarrow>
                    (assemble e extracted_text license_info, calls'))))"

text \<open>The handler: the outer \<^verbatim>\<open>except Exception\<close> of lines 227 to 230 around that body.\<close>

definition extract_text :: "env \<Rightarrow> exn + pyval \<Rightarrow> http_response \<times> pyval list" where
  "extract_text e request_json =
     (case extract_text_try e request_json of
        (Inl ex, calls) \<Rightarrow>
          (jsonify (PDict [(py ''status'', PStr (py ''error'')),
                           (py ''message'', PStr (py ''Server error: '' @ str_exn ex))]),
           calls)
      | (Inr j, calls) \<Rightarrow> (jsonify j, calls))"

subsection \<open>Auxiliary notions\<close>

text \<open>Storing a list of entries one after the other, and reading a key of a dict.\<close>

definition store_all :: "('k \<times> 'v) list \<Rightarrow> ('k \<times> 'v) list \<Rightarrow> ('k \<times> 'v) list" where
  "store_all d es = foldl (\<lambda>acc kv. dict_set acc (fst kv) (snd kv)) d es"

definition dict_get :: "pyval \<Rightarrow> string \<Rightarrow> pyval option" where
  "dict_get v k = (case v of PDict d \<Rightarrow> map_of d (py k) | _ \<Rightarrow> None)"

text \<open>The content of the user message of a request: \<^verbatim>\<open>messages[1]["content"]\<close>.\<close>

definition user_content :: "pyval \<Rightarrow> pyval option" where
  "user_content kwargs =
     (case dict_get kwargs ''messages'' of
        Some (PList [system_message, user_message]) \<Rightarrow> dict_get user_message ''content''
      | _ \<Rightarrow> None)"

text \<open>A request is a dict with the key \<^verbatim>\<open>image\<close>, or it is not.\<close>

fun has_image :: "exn + pyval \<Rightarrow> bool" where
  "has_image (Inr (PDict d)) = (map_of d (py ''image'') \<noteq> None)"
| "has_image other = False"

subsection \<open>Sample inputs\<close>

text \<open>
  A service that answers the first call of a request with \<open>first\<close> and any later call
  with \<open>second\<close>, and a body with both keys.
\<close>

definition demo_env :: "(exn + completion) \<Rightarrow> (exn + completion) \<Rightarrow> env" where
  "demo_env first second =
     \<lparr>remote = (\<lambda>prior kwargs. if prior = [] then first else second),
      extraction_time = 5 / 4, license_time = 1 / 8, total_time = 11 / 8\<rparr>"

definition demo_request :: "pystr \<Rightarrow> pyval \<Rightarrow> exn + pyval" where
  "demo_request image_data force =
     Inr (PDict [(py ''image'', PStr image_data), (py ''force_extraction'', force)])"



section \<open>Properties of the parser\<close>

lemma map_of_dict_set: "map_of (dict_set d k v) = (map_of d)(k \<mapsto> v)"
  by (induction d k v rule: dict_set.induct) auto

lemma keys_dict_set:
  "map fst (dict_set d k v) = (if k \<in> fst ` set d then map fst d else map fst d @ [k])"
  by (induction d k v rule: dict_set.induct) auto

lemma distinct_dict_set: "distinct (map fst d) \<Longrightarrow> distinct (map fst (dict_set d k v))"
  by (simp add: keys_dict_set)

lemma dict_set_not_Nil: "dict_set d k v \<noteq> []"
  by (induction d k v rule: dict_set.induct) (auto split: if_splits)

lemma parse_line_colon:
  "COLON \<in> set line \<Longrightarrow>
   parse_line d line =
     Inr (dict_set d (py_strip (takeWhile (\<lambda>c. c \<noteq> COLON) line))
                     (py_strip (tl (dropWhile (\<lambda>c. c \<noteq> COLON) line))))"
  by (simp add: parse_line_def py_split1_def py_index_def)

lemma parse_line_no_colon: "COLON \<notin> set line \<Longrightarrow> parse_line d line = Inr d"
  by (simp add: parse_line_def)

lemma store_all_Nil: "store_all d [] = d"
  by (simp add: store_all_def)

lemma store_all_Cons: "store_all d (e # es) = store_all (dict_set d (fst e) (snd e)) es"
  by (simp add: store_all_def)

lemma parse_lines_store_all:
  "parse_lines d ls =
     Inr (store_all d
       (map (\<lambda>line. (py_strip (takeWhile (\<lambda>c. c \<noteq> COLON) line),
                    py_strip (tl (dropWhile (\<lambda>c. c \<noteq> COLON) line))))
            (filter (\<lambda>line. COLON \<in> set line) ls)))"
proof (induction ls arbitrary: d)
  case Nil
  show ?case by (simp add: store_all_Nil)
next
  case (Cons l ls)
  show ?case
  proof (cases "COLON \<in> set l")
    case True
    then show ?thesis
      by (simp add: parse_line_colon Cons.IH store_all_Cons)
  next
    case False
    then show ?thesis
      by (simp add: parse_line_no_colon Cons.IH)
  qed
qed

lemma map_of_store_all: "map_of (store_all d es) = map_of d ++ map_of (rev es)"
proof (induction es arbitrary: d)
  case Nil
  show ?case by (simp add: store_all_Nil)
next
  case (Cons e es)
  have "map_of (store_all d (e # es)) = map_of (dict_set d (fst e) (snd e)) ++ map_of (rev es)"
    by (simp add: store_all_Cons Cons.IH)
  also have "\<dots> = map_of d ++ map_of (rev (e # es))"
    by (cases e) (simp add: map_of_dict_set map_add_def fun_eq_iff split: option.splits)
  finally show ?case .
qed

lemma distinct_store_all: "distinct (map fst d) \<Longrightarrow> distinct (map fst (store_all d es))"
  by (induction es arbitrary: d) (simp_all add: store_all_Nil store_all_Cons distinct_dict_set)

lemma store_all_Nil_iff: "store_all d es = [] \<longleftrightarrow> d = [] \<and> es = []"
proof (induction es arbitrary: d)
  case Nil
  show ?case by (simp add: store_all_Nil)
next
  case (Cons e es)
  show ?case by (simp add: store_all_Cons Cons.IH dict_set_not_Nil)
qed

lemma parse_license_info_eq:
  "parse_license_info text = Inr (store_all [] (spec_entries text))"
  by (simp add: parse_license_info_def spec_entries_def parse_lines_store_all)

lemmas eval_string = py_def COLON_def COMMA_def NEWLINE_def QUOTE_def

lemmas eval_parse =
  parse_license_info_def parse_line_def py_split1_def py_index_def py_strip_def isspace_def

text \<open>
  Claim C1. For every text of the second step, the loop of lines 194 to 203 raises nothing
  and builds the mapping the specification describes: the text is cut into lines, each
  line with a colon is cut at its first colon only into a trimmed key and a trimmed value,
  a later line with the same key overwrites the earlier value, and a line without a colon
  leaves the mapping as it is. The keys of the result are distinct. The line
  \<^verbatim>\<open>Address: 12:34 Main St\<close> yields the value \<^verbatim>\<open>12:34 Main St\<close>.
\<close>

theorem parse_license_info_last_write_wins:
  "(\<exists>d. parse_license_info text = Inr d \<and> map_of d = spec_lookup text \<and> distinct (map fst d))
   \<and> (COLON \<notin> set line \<longrightarrow> parse_line acc line = Inr acc)
   \<and> parse_license_info (py ''Address: 12:34 Main St'')
       = Inr [(py ''Address'', py ''12:34 Main St'')]"
proof -
  have "map_of (store_all [] (spec_entries text)) = spec_lookup text"
    by (simp add: map_of_store_all spec_lookup_def fun_eq_iff)
  moreover have "distinct (map fst (store_all [] (spec_entries text)))"
    by (simp add: distinct_store_all)
  ultimately have
    "\<exists>d. parse_license_info text = Inr d \<and> map_of d = spec_lookup text \<and> distinct (map fst d)"
    by (simp add: parse_license_info_eq)
  moreover have
    "parse_license_info (py ''Address: 12:34 Main St'') = Inr [(py ''Address'', py ''12:34 Main St'')]"
    by (simp add: eval_string eval_parse)
  ultimately show ?thesis
    by (simp add: parse_line_no_colon)
qed

theorem parse_license_info_last_write_wins_witness:
  "COLON \<notin> set (py ''junk'')
   \<and> parse_line [(py ''A'', py ''1'')] (py ''junk'') = Inr [(py ''A'', py ''1'')]
   \<and> (\<exists>d. parse_license_info (py ''A: 1'' @ [NEWLINE] @ py ''junk'' @ [NEWLINE] @ py '' A :2:3 '') = Inr d
          \<and> map_of d (py ''A'') = Some (py ''2:3''))"
proof -
  let ?text = "py ''A: 1'' @ [NEWLINE] @ py ''junk'' @ [NEWLINE] @ py '' A :2:3 ''"
  have no_colon: "COLON \<notin> set (py ''junk'')"
    by (simp add: eval_string)
  have last: "spec_lookup ?text (py ''A'') = Some (py ''2:3'')"
    by (simp add: spec_lookup_def spec_entries_def eval_string py_strip_def isspace_def)
  from parse_license_info_last_write_wins [of ?text "py ''junk''" "[(py ''A'', py ''1'')]"]
  show ?thesis using no_colon last by auto
qed

section \<open>Properties of the stages\<close>

lemma py_split_no_sep: "sep \<notin> set s \<Longrightarrow> py_split sep s = [s]"
  by (induction s) auto

lemma py_split_first:
  "sep \<notin> set p \<Longrightarrow> py_split sep (p @ sep # rest) = p # py_split sep rest"
  by (induction p) auto

lemma py_split_hd: "\<exists>ws. py_split sep s = takeWhile (\<lambda>c. c \<noteq> sep) s # ws"
  by (induction s) auto

lemma strip_data_url_no_comma:
  "startswith s (py ''data:image'') \<Longrightarrow> COMMA \<notin> set s \<Longrightarrow>
   strip_data_url s = Inl (IndexError (py ''list index out of range''))"
  by (simp add: strip_data_url_def py_split_no_sep py_index_def)

lemma strip_data_url_comma:
  assumes "startswith (p @ COMMA # rest) (py ''data:image'')" and "COMMA \<notin> set p"
  shows "strip_data_url (p @ COMMA # rest) = Inr (takeWhile (\<lambda>c. c \<noteq> COMMA) rest)"
proof -
  obtain ws where "py_split COMMA rest = takeWhile (\<lambda>c. c \<noteq> COMMA) rest # ws"
    using py_split_hd by blast
  then show ?thesis
    using assms by (simp add: strip_data_url_def py_split_first py_index_def)
qed

lemma strip_data_url_bare:
  "\<not> startswith s (py ''data:image'') \<Longrightarrow> strip_data_url s = Inr s"
  by (simp add: strip_data_url_def)

lemma read_request_dict:
  assumes "map_of d (py ''image'') = Some v"
  shows "read_request (Inr (PDict d)) =
           (case image_of v of
              Inl ex \<Rightarrow> Raise ex
            | Inr image_data \<Rightarrow>
                Continue (image_data,
                  (case map_of d (py ''force_extraction'') of None \<Rightarrow> PBool False | Some w \<Rightarrow> w)))"
proof -
  have "d \<noteq> []"
    using assms by auto
  moreover have "py ''image'' \<in> set (map fst d)"
    using assms by (metis map_of_eq_None_iff option.distinct(1) set_map)
  ultimately show ?thesis
    using assms by (simp add: read_request_def split: sum.splits)
qed

lemma read_request_no_image:
  assumes "d \<noteq> []" and "map_of d (py ''image'') = None"
  shows "read_request (Inr (PDict d)) =
           Return (PDict [(py ''status'', PStr (py ''error'')),
                          (py ''message'', PStr (py ''No image data provided''))])"
proof -
  have "py ''image'' \<notin> set (map fst d)"
    using assms(2) by (simp add: map_of_eq_None_iff)
  then show ?thesis
    using assms(1) by (simp add: read_request_def)
qed

lemma read_request_falsy:
  "\<not> truthy data \<Longrightarrow>
   read_request (Inr data) =
     Return (PDict [(py ''status'', PStr (py ''error'')),
                    (py ''message'', PStr (py ''No JSON data provided''))])"
  by (simp add: read_request_def)

lemma read_request_not_dict:
  "truthy data \<Longrightarrow> \<forall>d. data \<noteq> PDict d \<Longrightarrow>
   read_request (Inr data) = Raise (no_attribute data ''keys'')"
  by (cases data) (simp_all add: read_request_def)

lemma step1_text:
  "remote e calls (step1_request img) = Inr (Some t # others) \<Longrightarrow>
   step1 e calls img f =
     (if py_strip t = py ''NO_LICENSE_DETECTED'' \<and> \<not> truthy f
      then Return (PDict [(py ''status'', PStr (py ''error'')),
                          (py ''message'',
                             PStr (py ''Could not clearly detect a driver's license in the image'')),
                          (py ''analysis'', PDict [(py ''license_detected'', PBool False)]),
                          (py ''suggestions'', PList suggestions)])
      else Continue t,
      calls @ [step1_request img])"
  by (simp add: step1_def call_remote_def content_text_def py_index_def)

lemma step2_text:
  "remote e calls (step2_request t) = Inr (Some l # others) \<Longrightarrow>
   step2 e calls t = (Continue l, calls @ [step2_request t])"
  by (simp add: step2_def call_remote_def content_text_def py_index_def)

lemma step2_raises:
  "remote e calls (step2_request t) = Inl ex \<Longrightarrow>
   step2 e calls t =
     (Return (PDict [(py ''status'', PStr (py ''error'')),
                     (py ''message'',
                        PStr (py ''OpenAI license info extraction failed: '' @ str_exn ex)),
                     (py ''raw_text'', PStr t)]),
      calls @ [step2_request t])"
  by (simp add: step2_def call_remote_def)

lemma requests_differ: "step1_request img \<noteq> step2_request t"
  by (simp add: step1_request_def step2_request_def)

lemma extract_text_Raise:
  "read_request rq = Raise ex \<Longrightarrow>
   extract_text e rq =
     (jsonify (PDict [(py ''status'', PStr (py ''error'')),
                      (py ''message'', PStr (py ''Server error: '' @ str_exn ex))]), [])"
  by (simp add: extract_text_def extract_text_try_def)

lemma extract_text_Return:
  "read_request rq = Return j \<Longrightarrow> extract_text e rq = (jsonify j, [])"
  by (simp add: extract_text_def extract_text_try_def)

lemma demo_request_read:
  "\<not> startswith img (py ''data:image'') \<Longrightarrow>
   read_request (demo_request img force) = Continue (img, force)"
  by (simp add: demo_request_def read_request_dict strip_data_url_bare py_def)

lemma AAAA_bare: "\<not> startswith (py ''AAAA'') (py ''data:image'')"
  by (simp add: startswith_def py_def)

section \<open>Properties of the handler\<close>

text \<open>
  Claim C2. When the request reaches the first step, the first call returns a text that is
  \<^verbatim>\<open>NO_LICENSE_DETECTED\<close> after trimming, and \<^verbatim>\<open>force_extraction\<close> is falsy, the
  handler answers with the error dict whose \<^verbatim>\<open>analysis.license_detected\<close> is false and
  whose \<^verbatim>\<open>suggestions\<close> has four entries; the only remote call made is the first one, so
  no structuring request is among the calls.
\<close>

theorem no_license_short_circuit:
  assumes "read_request request_json = Continue (image_data, force_extraction)"
    and "remote e [] (step1_request image_data) = Inr (Some text # others)"
    and "py_strip text = py ''NO_LICENSE_DETECTED''"
    and "\<not> truthy force_extraction"
  shows "extract_text e request_json =
           (jsonify (PDict [(py ''status'', PStr (py ''error'')),
                            (py ''message'',
                               PStr (py ''Could not clearly detect a driver's license in the image'')),
                            (py ''analysis'', PDict [(py ''license_detected'', PBool False)]),
                            (py ''suggestions'', PList suggestions)]),
            [step1_request image_data])
         \<and> length suggestions = 4
         \<and> step2_request t \<notin> set (snd (extract_text e request_json))"
proof -
  have "step1 e [] image_data force_extraction =
          (Return (PDict [(py ''status'', PStr (py ''error'')),
                          (py ''message'',
                             PStr (py ''Could not clearly detect a driver's license in the image'')),
                          (py ''analysis'', PDict [(py ''license_detected'', PBool False)]),
                          (py ''suggestions'', PList suggestions)]),
           [step1_request image_data])"
    using assms(2-4) by (simp add: step1_text)
  then have "extract_text e request_json =
           (jsonify (PDict [(py ''status'', PStr (py ''error'')),
                            (py ''message'',
                               PStr (py ''Could not clearly detect a driver's license in the image'')),
                            (py ''analysis'', PDict [(py ''license_detected'', PBool False)]),
                            (py ''suggestions'', PList suggestions)]),
            [step1_request image_data])"
    using assms(1) by (simp add: extract_text_def extract_text_try_def)
  moreover have "length suggestions = 4"
    by (simp add: suggestions_def)
  ultimately show ?thesis
    using requests_differ [of image_data t] by auto
qed

theorem no_license_short_circuit_witness:
  "extract_text (demo_env (Inr [Some (py '' NO_LICENSE_DETECTED'' @ [NEWLINE])]) (Inl (Raised (py ''unused''))))
                (demo_request (py ''AAAA'') PNone)
   = (jsonify (PDict [(py ''status'', PStr (py ''error'')),
                      (py ''message'',
                         PStr (py ''Could not clearly detect a driver's license in the image'')),
                      (py ''analysis'', PDict [(py ''license_detected'', PBool False)]),
                      (py ''suggestions'', PList suggestions)]),
      [step1_request (py ''AAAA'')])"
proof -
  let ?e = "demo_env (Inr [Some (py '' NO_LICENSE_DETECTED'' @ [NEWLINE])]) (Inl (Raised (py ''unused'')))"
  have read: "read_request (demo_request (py ''AAAA'') PNone) = Continue (py ''AAAA'', PNone)"
    by (simp add: demo_request_read AAAA_bare)
  have first: "remote ?e [] (step1_request (py ''AAAA''))
                 = Inr (Some (py '' NO_LICENSE_DETECTED'' @ [NEWLINE]) # [])"
    by (simp add: demo_env_def)
  have sentinel: "py_strip (py '' NO_LICENSE_DETECTED'' @ [NEWLINE]) = py ''NO_LICENSE_DETECTED''"
    by (simp add: py_strip_def isspace_def eval_string)
  have falsy: "\<not> truthy PNone"
    by simp
  from no_license_short_circuit [OF read first sentinel falsy]
  show ?thesis by simp
qed

text \<open>
  Claim C6. A request that is not a dict with the key \<^verbatim>\<open>image\<close> (no JSON body at all, a
  falsy body, a body of another type, a dict without the key) is answered with an error
  dict that carries a message, and no remote call is made. A falsy body gets the message
  \<^verbatim>\<open>No JSON data provided\<close>, a non-empty dict without the key
  \<^verbatim>\<open>No image data provided\<close>.
\<close>

theorem missing_image_no_remote_call:
  "(\<not> has_image request_json \<longrightarrow>
      (\<exists>m. extract_text e request_json =
         (jsonify (PDict [(py ''status'', PStr (py ''error'')), (py ''message'', PStr m)]), [])))
   \<and> (\<not> truthy data \<longrightarrow>
        extract_text e (Inr data) =
          (jsonify (PDict [(py ''status'', PStr (py ''error'')),
                           (py ''message'', PStr (py ''No JSON data provided''))]), []))
   \<and> (d \<noteq> [] \<and> map_of d (py ''image'') = None \<longrightarrow>
        extract_text e (Inr (PDict d)) =
          (jsonify (PDict [(py ''status'', PStr (py ''error'')),
                           (py ''message'', PStr (py ''No image data provided''))]), []))"
proof -
  have general: "\<exists>m. extract_text e request_json =
         (jsonify (PDict [(py ''status'', PStr (py ''error'')), (py ''message'', PStr m)]), [])"
    if no: "\<not> has_image request_json"
  proof (cases request_json)
    case (Inl ex)
    then have "read_request request_json = Raise ex"
      by (simp add: read_request_def)
    then show ?thesis
      by (auto simp add: extract_text_Raise)
  next
    case (Inr data')
    show ?thesis
    proof (cases "truthy data'")
      case False
      then show ?thesis
        using Inr by (auto simp add: read_request_falsy extract_text_Return)
    next
      case True
      show ?thesis
      proof (cases "\<exists>d'. data' = PDict d'")
        case True
        then obtain d' where d': "data' = PDict d'" by blast
        with no Inr have "map_of d' (py ''image'') = None" by simp
        moreover have "d' \<noteq> []" using \<open>truthy data'\<close> d' by simp
        ultimately show ?thesis
          using Inr d' by (auto simp add: read_request_no_image extract_text_Return)
      next
        case False
        then have "read_request request_json = Raise (no_attribute data' ''keys'')"
          using Inr \<open>truthy data'\<close> by (simp add: read_request_not_dict)
        then show ?thesis
          by (auto simp add: extract_text_Raise)
      qed
    qed
  qed
  then show ?thesis
    by (simp add: read_request_falsy read_request_no_image extract_text_Return)
qed

theorem missing_image_no_remote_call_witness:
  "\<not> has_image (Inr (PList [PInt 1]))
   \<and> (\<exists>m. extract_text (demo_env (Inr []) (Inr [])) (Inr (PList [PInt 1])) =
         (jsonify (PDict [(py ''status'', PStr (py ''error'')), (py ''message'', PStr m)]), []))
   \<and> \<not> truthy (PDict [])
   \<and> extract_text (demo_env (Inr []) (Inr [])) (Inr (PDict [])) =
          (jsonify (PDict [(py ''status'', PStr (py ''error'')),
                           (py ''message'', PStr (py ''No JSON data provided''))]), [])
   \<and> map_of [(py ''force_extraction'', PBool True)] (py ''image'') = None
   \<and> extract_text (demo_env (Inr []) (Inr [])) (Inr (PDict [(py ''force_extraction'', PBool True)])) =
          (jsonify (PDict [(py ''status'', PStr (py ''error'')),
                           (py ''message'', PStr (py ''No image data provided''))]), [])"
proof -
  have key: "map_of [(py ''force_extraction'', PBool True)] (py ''image'') = None"
    by (simp add: py_def)
  from missing_image_no_remote_call
         [of "Inr (PList [PInt 1])" "demo_env (Inr []) (Inr [])" "PDict []"
             "[(py ''force_extraction'', PBool True)]"]
  show ?thesis using key by simp
qed

section \<open>The calls a request makes\<close>

lemma step1_calls: "snd (step1 e calls img f) = calls @ [step1_request img]"
  by (simp add: step1_def call_remote_def split: sum.splits)

lemma step2_calls: "snd (step2 e calls t) = calls @ [step2_request t]"
  by (simp add: step2_def call_remote_def split: sum.splits)

lemma step1_not_Raise: "fst (step1 e calls img f) \<noteq> Raise ex"
  by (simp add: step1_def call_remote_def split: sum.splits)

lemma step2_not_Raise: "fst (step2 e calls t) \<noteq> Raise ex"
  by (simp add: step2_def call_remote_def split: sum.splits)

lemma step1_Return_error:
  "fst (step1 e calls img f) = Return j \<Longrightarrow> dict_get j ''status'' = Some (PStr (py ''error''))"
  by (auto simp add: step1_def call_remote_def dict_get_def split: sum.splits if_splits)

lemma step2_Return_error:
  "fst (step2 e calls t) = Return j \<Longrightarrow> dict_get j ''status'' = Some (PStr (py ''error''))"
  by (auto simp add: step2_def call_remote_def dict_get_def split: sum.splits)

lemma read_request_Return_error:
  "read_request rq = Return j \<Longrightarrow> dict_get j ''status'' = Some (PStr (py ''error''))"
  by (auto simp add: read_request_def dict_get_def split: sum.splits if_splits)

lemma first_call:
  assumes "read_request rq = Continue (img, f)"
  shows "\<exists>later. snd (extract_text e rq) = step1_request img # later"
proof -
  obtain r1 c1 where s1: "step1 e [] img f = (r1, c1)"
    by (cases "step1 e [] img f")
  then have c1: "c1 = [step1_request img]"
    using step1_calls [of e "[]" img f] by simp
  show ?thesis
  proof (cases r1)
    case (Continue t)
    obtain r2 c2 where s2: "step2 e c1 t = (r2, c2)"
      by (cases "step2 e c1 t")
    then have "c2 = [step1_request img, step2_request t]"
      using step2_calls [of e c1 t] c1 by simp
    then show ?thesis
      using assms s1 s2 Continue
      by (cases r2) (auto simp add: extract_text_def extract_text_try_def split: sum.splits)
  next
    case (Return j)
    then show ?thesis
      using assms s1 c1 by (simp add: extract_text_def extract_text_try_def)
  next
    case (Raise ex)
    then show ?thesis
      using assms s1 c1 by (simp add: extract_text_def extract_text_try_def)
  qed
qed

section \<open>The image string\<close>

lemma read_request_image_string:
  "map_of d (py ''image'') = Some (PStr s) \<Longrightarrow> strip_data_url s = Inr img \<Longrightarrow>
   read_request (Inr (PDict d)) =
     Continue (img, case map_of d (py ''force_extraction'') of None \<Rightarrow> PBool False | Some w \<Rightarrow> w)"
  by (simp add: read_request_dict)

lemma extract_text_read_request:
  "read_request rq = read_request rq' \<Longrightarrow> extract_text e rq = extract_text e rq'"
  by (simp add: extract_text_def extract_text_try_def)

lemma image_after_dict_set: "map_of (dict_set d k v) k = Some v"
  by (simp add: map_of_dict_set)

lemma force_after_dict_set:
  "map_of (dict_set d (py ''image'') v) (py ''force_extraction'') = map_of d (py ''force_extraction'')"
  by (simp add: map_of_dict_set py_def)

text \<open>
  What lines 64 to 66 compute on a string that starts with \<^verbatim>\<open>data:image\<close> and has a
  comma: \<^verbatim>\<open>split(',')[1]\<close> is the part between the first comma and the next one. On a
  string with a single comma that is the whole part after the comma, and when this part
  does not itself start with \<^verbatim>\<open>data:image\<close> the request is handled exactly as the
  request with the bare part for its image.
\<close>

lemma data_url_split_second_part:
  assumes "map_of d (py ''image'') = Some (PStr (p @ COMMA # rest))"
    and "startswith (p @ COMMA # rest) (py ''data:image'')"
    and "COMMA \<notin> set p"
  shows "(\<exists>force later.
            read_request (Inr (PDict d)) = Continue (takeWhile (\<lambda>c. c \<noteq> COMMA) rest, force)
            \<and> snd (extract_text e (Inr (PDict d)))
                = step1_request (takeWhile (\<lambda>c. c \<noteq> COMMA) rest) # later)
         \<and> (COMMA \<notin> set rest \<and> \<not> startswith rest (py ''data:image'') \<longrightarrow>
              extract_text e (Inr (PDict d))
                = extract_text e (Inr (PDict (dict_set d (py ''image'') (PStr rest)))))"
proof -
  let ?seg = "takeWhile (\<lambda>c. c \<noteq> COMMA) rest"
  let ?force = "case map_of d (py ''force_extraction'') of None \<Rightarrow> PBool False | Some w \<Rightarrow> w"
  have read: "read_request (Inr (PDict d)) = Continue (?seg, ?force)"
    using assms by (simp add: read_request_image_string strip_data_url_comma)
  then obtain later where
    "snd (extract_text e (Inr (PDict d))) = step1_request ?seg # later"
    using first_call by blast
  with read have sent: "\<exists>force later.
            read_request (Inr (PDict d)) = Continue (?seg, force)
            \<and> snd (extract_text e (Inr (PDict d))) = step1_request ?seg # later"
    by blast
  have same: "extract_text e (Inr (PDict d))
                = extract_text e (Inr (PDict (dict_set d (py ''image'') (PStr rest))))"
    if "COMMA \<notin> set rest" and "\<not> startswith rest (py ''data:image'')"
  proof -
    have "?seg = rest"
      using that(1) by (auto simp add: takeWhile_eq_all_conv)
    moreover have "read_request (Inr (PDict (dict_set d (py ''image'') (PStr rest))))
                     = Continue (rest, ?force)"
      using that(2)
      by (simp add: read_request_image_string [where s = rest] image_after_dict_set
            strip_data_url_bare force_after_dict_set)
    ultimately show ?thesis
      using read by (simp add: extract_text_read_request)
  qed
  from sent same show ?thesis
    by blast
qed

lemma data_url_single_comma_example:
  "extract_text (demo_env (Inr [Some (py ''Name: Jane Doe'')]) (Inr [Some (py ''Name: Jane Doe'')]))
                (demo_request (py ''data:image/png;base64,AAAA'') PNone)
   = extract_text (demo_env (Inr [Some (py ''Name: Jane Doe'')]) (Inr [Some (py ''Name: Jane Doe'')]))
                  (demo_request (py ''AAAA'') PNone)"
proof -
  let ?e = "demo_env (Inr [Some (py ''Name: Jane Doe'')]) (Inr [Some (py ''Name: Jane Doe'')])"
  let ?d = "[(py ''image'', PStr (py ''data:image/png;base64'' @ COMMA # py ''AAAA'')),
             (py ''force_extraction'', PNone)]"
  have img: "map_of ?d (py ''image'') = Some (PStr (py ''data:image/png;base64'' @ COMMA # py ''AAAA''))"
    by simp
  have starts: "startswith (py ''data:image/png;base64'' @ COMMA # py ''AAAA'') (py ''data:image'')"
    by (simp add: startswith_def py_def)
  have prefix: "COMMA \<notin> set (py ''data:image/png;base64'')"
    by (simp add: eval_string)
  have payload: "COMMA \<notin> set (py ''AAAA'') \<and> \<not> startswith (py ''AAAA'') (py ''data:image'')"
    by (simp add: eval_string startswith_def)
  have whole: "py ''data:image/png;base64,AAAA'' = py ''data:image/png;base64'' @ COMMA # py ''AAAA''"
    by (simp add: eval_string)
  from data_url_split_second_part [OF img starts prefix, of ?e] payload
  have "extract_text ?e (Inr (PDict ?d))
          = extract_text ?e (Inr (PDict (dict_set ?d (py ''image'') (PStr (py ''AAAA'')))))"
    by blast
  then show ?thesis
    by (simp add: demo_request_def whole)
qed

text \<open>
  Claim C3. The specification, like the comment of line 63, has the prefix up to and
  including the first comma removed, so that a prefixed string is handled as the bare
  string after that comma. The code cuts with \<^verbatim>\<open>split(',')[1]\<close>, without the limit of one
  cut that line 199 gives its \<^verbatim>\<open>split(':', 1)\<close>, and so it also drops everything from a
  second comma on. At the image \<^verbatim>\<open>data:image/png;base64,AA,BB\<close> the code keeps \<^verbatim>\<open>AA\<close> and
  sends that, where the claim asks for \<^verbatim>\<open>AA,BB\<close>, which is what the bare string \<^verbatim>\<open>AA,BB\<close>
  does send: the two requests are not treated alike.
\<close>

theorem data_url_second_comma_truncated:
  "strip_data_url (py ''data:image/png;base64,AA,BB'') = Inr (py ''AA'')
   \<and> snd (extract_text (demo_env (Inl (Raised (py ''offline''))) (Inl (Raised (py ''offline''))))
                     (demo_request (py ''data:image/png;base64,AA,BB'') PNone))
     = [step1_request (py ''AA'')]
   \<and> snd (extract_text (demo_env (Inl (Raised (py ''offline''))) (Inl (Raised (py ''offline''))))
                       (demo_request (py ''AA,BB'') PNone))
     = [step1_request (py ''AA,BB'')]
   \<and> step1_request (py ''AA'') \<noteq> step1_request (py ''AA,BB'')"
proof -
  let ?e = "demo_env (Inl (Raised (py ''offline''))) (Inl (Raised (py ''offline'')))"
  have prefixed: "read_request (demo_request (py ''data:image/png;base64,AA,BB'') PNone)
                    = Continue (py ''AA'', PNone)"
    by (simp add: demo_request_def read_request_dict strip_data_url_def startswith_def
          py_index_def eval_string)
  have bare: "read_request (demo_request (py ''AA,BB'') PNone) = Continue (py ''AA,BB'', PNone)"
    by (simp add: demo_request_read startswith_def py_def)
  have calls: "snd (extract_text ?e rq) = [step1_request img]"
    if "read_request rq = Continue (img, PNone)" for rq img
    using that
    by (simp add: extract_text_def extract_text_try_def step1_def call_remote_def demo_env_def)
  have kept: "strip_data_url (py ''data:image/png;base64,AA,BB'') = Inr (py ''AA'')"
    by (simp add: strip_data_url_def startswith_def py_index_def eval_string)
  have "step1_request (py ''AA'') \<noteq> step1_request (py ''AA,BB'')"
    by (simp add: step1_request_def py_def)
  with kept calls [OF prefixed] calls [OF bare] show ?thesis
    by simp
qed

text \<open>
  Claim C10. When the image string starts with \<^verbatim>\<open>data:image\<close> and has no comma, the index
  \<^verbatim>\<open>[1]\<close> into the one-element result of \<^verbatim>\<open>split(',')\<close> raises \<^verbatim>\<open>IndexError\<close> inside the
  outer \<^verbatim>\<open>try\<close>; the handler answers with the error dict of the outer handler and makes
  no remote call.
\<close>

theorem data_url_without_comma:
  assumes "map_of d (py ''image'') = Some (PStr s)"
    and "startswith s (py ''data:image'')"
    and "COMMA \<notin> set s"
  shows "extract_text_try e (Inr (PDict d)) = (Inl (IndexError (py ''list index out of range'')), [])
         \<and> extract_text e (Inr (PDict d))
             = (jsonify (PDict [(py ''status'', PStr (py ''error'')),
                                (py ''message'', PStr (py ''Server error: list index out of range''))]),
                [])"
proof -
  have "read_request (Inr (PDict d)) = Raise (IndexError (py ''list index out of range''))"
    using assms by (simp add: read_request_dict strip_data_url_no_comma)
  then show ?thesis
    by (simp add: extract_text_def extract_text_try_def py_def)
qed

theorem data_url_without_comma_witness:
  "extract_text (demo_env (Inr [Some (py ''unused'')]) (Inr [Some (py ''unused'')]))
                (demo_request (py ''data:image/png;base64'') (PBool True))
     = (jsonify (PDict [(py ''status'', PStr (py ''error'')),
                        (py ''message'', PStr (py ''Server error: list index out of range''))]),
        [])"
proof -
  let ?d = "[(py ''image'', PStr (py ''data:image/png;base64'')),
             (py ''force_extraction'', PBool True)]"
  have img: "map_of ?d (py ''image'') = Some (PStr (py ''data:image/png;base64''))"
    by simp
  have starts: "startswith (py ''data:image/png;base64'') (py ''data:image'')"
    by (simp add: startswith_def py_def)
  have no_comma: "COMMA \<notin> set (py ''data:image/png;base64'')"
    by (simp add: eval_string)
  from data_url_without_comma [OF img starts no_comma]
  show ?thesis
    by (simp add: demo_request_def)
qed

section \<open>The paths through the two steps\<close>

lemma py_split_chars: "l \<in> set (py_split sep s) \<Longrightarrow> set l \<subseteq> set s"
proof (induction s arbitrary: l)
  case Nil
  then show ?case by simp
next
  case (Cons c cs)
  show ?case
  proof (cases "c = sep")
    case True
    then show ?thesis
      using Cons by auto
  next
    case False
    obtain w ws where split: "py_split sep cs = w # ws"
      using py_split_hd by blast
    then have "l = c # w \<or> l \<in> set ws"
      using Cons.prems False by simp
    then show ?thesis
    proof
      assume "l = c # w"
      moreover have "set w \<subseteq> set cs"
        using Cons.IH [of w] split by simp
      ultimately show ?thesis by auto
    next
      assume "l \<in> set ws"
      then have "set l \<subseteq> set cs"
        using Cons.IH [of l] split by simp
      then show ?thesis by auto
    qed
  qed
qed

lemma spec_entries_no_colon: "COLON \<notin> set text \<Longrightarrow> spec_entries text = []"
proof -
  assume "COLON \<notin> set text"
  then have "\<forall>l \<in> set (py_split NEWLINE text). COLON \<notin> set l"
    using py_split_chars by blast
  then have "filter (\<lambda>line. COLON \<in> set line) (py_split NEWLINE text) = []"
    by (simp add: filter_empty_conv)
  then show ?thesis
    by (simp add: spec_entries_def)
qed

lemma assemble_eq:
  "assemble e text info =
     Inr (PDict [
       (py ''status'', PStr (py ''success'')),
       (py ''data'', PDict (map (\<lambda>kv. (fst kv, PStr (snd kv)))
          (if store_all [] (spec_entries info) = [] then [(py ''Raw Extracted Text'', text)]
           else store_all [] (spec_entries info)))),
       (py ''raw_text'', PStr text),
       (py ''license_info'', PStr info),
       (py ''processing_time'', PDict [
          (py ''extraction_time'', PStr (format_2f (extraction_time e) @ py ''s'')),
          (py ''license_processing_time'', PStr (format_2f (license_time e) @ py ''s'')),
          (py ''total_time'', PStr (format_2f (total_time e) @ py ''s''))])])"
  by (simp add: assemble_def parse_license_info_eq)

lemma step1_goes_on:
  "remote e calls (step1_request img) = Inr (Some text # others) \<Longrightarrow>
   py_strip text \<noteq> py ''NO_LICENSE_DETECTED'' \<or> truthy force \<Longrightarrow>
   step1 e calls img force = (Continue text, calls @ [step1_request img])"
  by (auto simp add: step1_text)

lemma extract_text_both_steps:
  assumes "read_request rq = Continue (img, force)"
    and "remote e [] (step1_request img) = Inr (Some text # others)"
    and "py_strip text \<noteq> py ''NO_LICENSE_DETECTED'' \<or> truthy force"
  shows "extract_text_try e rq =
           (case step2 e [step1_request img] text of
              (Raise ex, calls) \<Rightarrow> (Inl ex, calls)
            | (Return j, calls) \<Rightarrow> (Inr j, calls)
            | (Continue info, calls) \<Rightarrow> (assemble e text info, calls))"
  using assms by (simp add: extract_text_try_def step1_goes_on)

lemma extract_text_success:
  assumes "read_request rq = Continue (img, force)"
    and "remote e [] (step1_request img) = Inr (Some text # others)"
    and "py_strip text \<noteq> py ''NO_LICENSE_DETECTED'' \<or> truthy force"
    and "remote e [step1_request img] (step2_request text) = Inr (Some info # others')"
  shows "extract_text e rq =
           (jsonify (PDict [
              (py ''status'', PStr (py ''success'')),
              (py ''data'', PDict (map (\<lambda>kv. (fst kv, PStr (snd kv)))
                 (if store_all [] (spec_entries info) = [] then [(py ''Raw Extracted Text'', text)]
                  else store_all [] (spec_entries info)))),
              (py ''raw_text'', PStr text),
              (py ''license_info'', PStr info),
              (py ''processing_time'', PDict [
                 (py ''extraction_time'', PStr (format_2f (extraction_time e) @ py ''s'')),
                 (py ''license_processing_time'', PStr (format_2f (license_time e) @ py ''s'')),
                 (py ''total_time'', PStr (format_2f (total_time e) @ py ''s''))])]),
            [step1_request img, step2_request text])"
proof -
  have "step2 e [step1_request img] text = (Continue info, [step1_request img, step2_request text])"
    using assms(4) by (simp add: step2_text)
  then show ?thesis
    using extract_text_both_steps [OF assms(1-3)]
    by (simp add: extract_text_def assemble_eq)
qed

lemma status_differ: "py ''error'' \<noteq> py ''success''"
  by (simp add: py_def)

lemma extract_text_try_status:
  assumes "extract_text_try e rq = (Inr j, calls)"
  shows "dict_get j ''status'' = Some (PStr (py ''error''))
         \<or> (dict_get j ''status'' = Some (PStr (py ''success''))
            \<and> (\<exists>fields. dict_get j ''data'' = Some (PDict fields) \<and> fields \<noteq> []))"
proof (cases "read_request rq")
  case (Raise ex)
  then show ?thesis
    using assms by (simp add: extract_text_try_def)
next
  case (Return j')
  then show ?thesis
    using assms read_request_Return_error [of rq j'] by (simp add: extract_text_try_def)
next
  case (Continue pair)
  obtain img f where pair: "pair = (img, f)"
    by (cases pair)
  obtain r1 c1 where s1: "step1 e [] img f = (r1, c1)"
    by (cases "step1 e [] img f")
  show ?thesis
  proof (cases r1)
    case (Raise ex)
    then show ?thesis
      using assms Continue pair s1 by (simp add: extract_text_try_def)
  next
    case (Return j')
    then show ?thesis
      using assms Continue pair s1 step1_Return_error [of e "[]" img f j']
      by (simp add: extract_text_try_def)
  next
    case t: (Continue raw)
    obtain r2 c2 where s2: "step2 e c1 raw = (r2, c2)"
      by (cases "step2 e c1 raw")
    show ?thesis
    proof (cases r2)
      case (Raise ex)
      then show ?thesis
        using assms Continue pair s1 t s2 by (simp add: extract_text_try_def)
    next
      case (Return j')
      then show ?thesis
        using assms Continue pair s1 t s2 step2_Return_error [of e c1 raw j']
        by (simp add: extract_text_try_def)
    next
      case (Continue info)
      then have "assemble e raw info = Inr j"
        using assms \<open>read_request rq = Continue pair\<close> pair s1 t s2
        by (simp add: extract_text_try_def)
      then have "dict_get j ''status'' = Some (PStr (py ''success''))
            \<and> (\<exists>fields. dict_get j ''data'' = Some (PDict fields) \<and> fields \<noteq> [])"
        by (auto simp add: assemble_eq dict_get_def py_def)
      then show ?thesis by simp
    qed
  qed
qed

lemma extract_text_outcome:
  "\<exists>j calls. extract_text e rq = (jsonify j, calls)
     \<and> (dict_get j ''status'' = Some (PStr (py ''error''))
        \<or> (dict_get j ''status'' = Some (PStr (py ''success''))
           \<and> (\<exists>fields. dict_get j ''data'' = Some (PDict fields) \<and> fields \<noteq> [])))"
proof -
  obtain r calls where tried: "extract_text_try e rq = (r, calls)"
    by (cases "extract_text_try e rq")
  show ?thesis
  proof (cases r)
    case (Inl ex)
    then have "extract_text e rq =
        (jsonify (PDict [(py ''status'', PStr (py ''error'')),
                         (py ''message'', PStr (py ''Server error: '' @ str_exn ex))]), calls)"
      using tried by (simp add: extract_text_def)
    moreover have "dict_get (PDict [(py ''status'', PStr (py ''error'')),
                         (py ''message'', PStr (py ''Server error: '' @ str_exn ex))]) ''status''
                   = Some (PStr (py ''error''))"
      by (simp add: dict_get_def)
    ultimately show ?thesis by blast
  next
    case (Inr j)
    then have "extract_text e rq = (jsonify j, calls)"
      using tried by (simp add: extract_text_def)
    then show ?thesis
      using extract_text_try_status [of e rq j calls] tried Inr by blast
  qed
qed

section \<open>The answers of the handler\<close>

text \<open>
  Claim C4. When the first call has yielded the text \<open>raw\<close>, the handler goes on to the
  second step, and the second call raises, the handler answers with an error dict whose
  \<^verbatim>\<open>raw_text\<close> is exactly \<open>raw\<close>.
\<close>

theorem step2_failure_keeps_raw_text:
  assumes "read_request request_json = Continue (image_data, force_extraction)"
    and "remote e [] (step1_request image_data) = Inr (Some raw # others)"
    and "py_strip raw \<noteq> py ''NO_LICENSE_DETECTED'' \<or> truthy force_extraction"
    and "remote e [step1_request image_data] (step2_request raw) = Inl ex"
  shows "extract_text e request_json =
           (jsonify (PDict [(py ''status'', PStr (py ''error'')),
                            (py ''message'',
                               PStr (py ''OpenAI license info extraction failed: '' @ str_exn ex)),
                            (py ''raw_text'', PStr raw)]),
            [step1_request image_data, step2_request raw])"
proof -
  have "step2 e [step1_request image_data] raw =
          (Return (PDict [(py ''status'', PStr (py ''error'')),
                          (py ''message'',
                             PStr (py ''OpenAI license info extraction failed: '' @ str_exn ex)),
                          (py ''raw_text'', PStr raw)]),
           [step1_request image_data, step2_request raw])"
    using assms(4) by (simp add: step2_raises)
  then show ?thesis
    using extract_text_both_steps [OF assms(1-3)] by (simp add: extract_text_def)
qed

theorem step2_failure_keeps_raw_text_witness:
  "extract_text (demo_env (Inr [Some (py ''DL 123'')]) (Inl (Raised (py ''timeout''))))
                (demo_request (py ''AAAA'') PNone)
   = (jsonify (PDict [(py ''status'', PStr (py ''error'')),
                      (py ''message'', PStr (py ''OpenAI license info extraction failed: timeout'')),
                      (py ''raw_text'', PStr (py ''DL 123''))]),
      [step1_request (py ''AAAA''), step2_request (py ''DL 123'')])"
proof -
  let ?e = "demo_env (Inr [Some (py ''DL 123'')]) (Inl (Raised (py ''timeout'')))"
  have read: "read_request (demo_request (py ''AAAA'') PNone) = Continue (py ''AAAA'', PNone)"
    by (simp add: demo_request_read AAAA_bare)
  have first: "remote ?e [] (step1_request (py ''AAAA'')) = Inr (Some (py ''DL 123'') # [])"
    by (simp add: demo_env_def)
  have other: "py_strip (py ''DL 123'') \<noteq> py ''NO_LICENSE_DETECTED'' \<or> truthy PNone"
    by (simp add: py_strip_def isspace_def py_def)
  have second: "remote ?e [step1_request (py ''AAAA'')] (step2_request (py ''DL 123''))
                  = Inl (Raised (py ''timeout''))"
    by (simp add: demo_env_def)
  from step2_failure_keeps_raw_text [OF read first other second]
  show ?thesis by (simp add: py_def)
qed

text \<open>
  Claim C5. When both calls succeed and the text of the second call has no colon at all,
  the handler answers with a success dict whose \<^verbatim>\<open>data\<close> is the single entry
  \<^verbatim>\<open>Raw Extracted Text\<close> with the text of the first call. Whatever the request and the
  service, the \<^verbatim>\<open>data\<close> of a success answer is a dict that is not empty.
\<close>

theorem no_colon_fallback:
  "(read_request request_json = Continue (image_data, force_extraction)
    \<and> remote e [] (step1_request image_data) = Inr (Some raw # others)
    \<and> (py_strip raw \<noteq> py ''NO_LICENSE_DETECTED'' \<or> truthy force_extraction)
    \<and> remote e [step1_request image_data] (step2_request raw) = Inr (Some info # others')
    \<and> COLON \<notin> set info
    \<longrightarrow> (\<exists>times. extract_text e request_json =
           (jsonify (PDict [(py ''status'', PStr (py ''success'')),
                            (py ''data'', PDict [(py ''Raw Extracted Text'', PStr raw)]),
                            (py ''raw_text'', PStr raw),
                            (py ''license_info'', PStr info),
                            (py ''processing_time'', times)]),
            [step1_request image_data, step2_request raw])))
   \<and> (dict_get (body (fst (extract_text e' request_json'))) ''status'' = Some (PStr (py ''success''))
      \<longrightarrow> (\<exists>fields. dict_get (body (fst (extract_text e' request_json'))) ''data''
                          = Some (PDict fields) \<and> fields \<noteq> []))"
proof -
  have fallback: "\<exists>times. extract_text e request_json =
           (jsonify (PDict [(py ''status'', PStr (py ''success'')),
                            (py ''data'', PDict [(py ''Raw Extracted Text'', PStr raw)]),
                            (py ''raw_text'', PStr raw),
                            (py ''license_info'', PStr info),
                            (py ''processing_time'', times)]),
            [step1_request image_data, step2_request raw])"
    if "read_request request_json = Continue (image_data, force_extraction)"
      and "remote e [] (step1_request image_data) = Inr (Some raw # others)"
      and "py_strip raw \<noteq> py ''NO_LICENSE_DETECTED'' \<or> truthy force_extraction"
      and "remote e [step1_request image_data] (step2_request raw) = Inr (Some info # others')"
      and "COLON \<notin> set info"
  proof -
    have "store_all [] (spec_entries info) = []"
      using that(5) by (simp add: spec_entries_no_colon store_all_Nil)
    then show ?thesis
      using extract_text_success [OF that(1-4)] by auto
  qed
  have never_empty: "\<exists>fields. dict_get (body (fst (extract_text e' request_json'))) ''data''
                          = Some (PDict fields) \<and> fields \<noteq> []"
    if ok: "dict_get (body (fst (extract_text e' request_json'))) ''status''
              = Some (PStr (py ''success''))"
  proof -
    obtain j calls where j: "extract_text e' request_json' = (jsonify j, calls)"
      and cases: "dict_get j ''status'' = Some (PStr (py ''error''))
        \<or> (dict_get j ''status'' = Some (PStr (py ''success''))
           \<and> (\<exists>fields. dict_get j ''data'' = Some (PDict fields) \<and> fields \<noteq> []))"
      using extract_text_outcome [of e' request_json'] by blast
    have "body (fst (extract_text e' request_json')) = j"
      using j by (simp add: jsonify_def)
    then show ?thesis
      using ok cases status_differ by auto
  qed
  from fallback never_empty show ?thesis
    by blast
qed

theorem no_colon_fallback_witness:
  "(\<exists>times. extract_text (demo_env (Inr [Some (py ''DL 123'')]) (Inr [Some (py ''nothing found'')]))
                          (demo_request (py ''AAAA'') PNone) =
           (jsonify (PDict [(py ''status'', PStr (py ''success'')),
                            (py ''data'', PDict [(py ''Raw Extracted Text'', PStr (py ''DL 123''))]),
                            (py ''raw_text'', PStr (py ''DL 123'')),
                            (py ''license_info'', PStr (py ''nothing found'')),
                            (py ''processing_time'', times)]),
            [step1_request (py ''AAAA''), step2_request (py ''DL 123'')]))
   \<and> (\<exists>fields. dict_get (body (fst (extract_text
                     (demo_env (Inr [Some (py ''DL 123'')]) (Inr [Some (py ''nothing found'')]))
                     (demo_request (py ''AAAA'') PNone)))) ''data''
                   = Some (PDict fields) \<and> fields \<noteq> [])"
proof -
  let ?e = "demo_env (Inr [Some (py ''DL 123'')]) (Inr [Some (py ''nothing found'')])"
  let ?rq = "demo_request (py ''AAAA'') PNone"
  have read: "read_request ?rq = Continue (py ''AAAA'', PNone)"
    by (simp add: demo_request_read AAAA_bare)
  have first: "remote ?e [] (step1_request (py ''AAAA'')) = Inr (Some (py ''DL 123'') # [])"
    by (simp add: demo_env_def)
  have other: "py_strip (py ''DL 123'') \<noteq> py ''NO_LICENSE_DETECTED'' \<or> truthy PNone"
    by (simp add: py_strip_def isspace_def py_def)
  have second: "remote ?e [step1_request (py ''AAAA'')] (step2_request (py ''DL 123''))
                  = Inr (Some (py ''nothing found'') # [])"
    by (simp add: demo_env_def)
  have no_colon: "COLON \<notin> set (py ''nothing found'')"
    by (simp add: eval_string)
  note inst = no_colon_fallback
    [of ?rq "py ''AAAA''" PNone ?e "py ''DL 123''" "[]" "py ''nothing found''" "[]" ?e ?rq]
  from inst read first other second no_colon
  obtain times where answer: "extract_text ?e ?rq =
           (jsonify (PDict [(py ''status'', PStr (py ''success'')),
                            (py ''data'', PDict [(py ''Raw Extracted Text'', PStr (py ''DL 123''))]),
                            (py ''raw_text'', PStr (py ''DL 123'')),
                            (py ''license_info'', PStr (py ''nothing found'')),
                            (py ''processing_time'', times)]),
            [step1_request (py ''AAAA''), step2_request (py ''DL 123'')])"
    by blast
  then have "dict_get (body (fst (extract_text ?e ?rq))) ''status'' = Some (PStr (py ''success''))"
    by (simp add: jsonify_def dict_get_def)
  with inst have "\<exists>fields. dict_get (body (fst (extract_text ?e ?rq))) ''data''
                   = Some (PDict fields) \<and> fields \<noteq> []"
    by blast
  with answer show ?thesis
    by blast
qed

text \<open>
  Claim C7. When the first call returns a text that is \<^verbatim>\<open>NO_LICENSE_DETECTED\<close> after
  trimming and \<^verbatim>\<open>force_extraction\<close> is truthy, the handler makes the second call, and
  the user message of that call ends with the text of the first call as it was returned.
\<close>

theorem forced_extraction_proceeds:
  assumes "read_request request_json = Continue (image_data, force_extraction)"
    and "remote e [] (step1_request image_data) = Inr (Some raw # others)"
    and "py_strip raw = py ''NO_LICENSE_DETECTED''"
    and "truthy force_extraction"
  shows "snd (extract_text e request_json) = [step1_request image_data, step2_request raw]
         \<and> user_content (step2_request raw)
             = Some (PStr (py ''Extract driver's license information from this text:''
                           @ [NEWLINE, NEWLINE] @ raw))"
proof -
  have "extract_text_try e request_json =
           (case step2 e [step1_request image_data] raw of
              (Raise ex, calls) \<Rightarrow> (Inl ex, calls)
            | (Return j, calls) \<Rightarrow> (Inr j, calls)
            | (Continue info, calls) \<Rightarrow> (assemble e raw info, calls))"
    using assms by (simp add: extract_text_both_steps)
  moreover obtain r2 c2 where s2: "step2 e [step1_request image_data] raw = (r2, c2)"
    by (cases "step2 e [step1_request image_data] raw")
  moreover have "c2 = [step1_request image_data, step2_request raw]"
    using step2_calls [of e "[step1_request image_data]" raw] s2 by simp
  ultimately have "snd (extract_text e request_json) = [step1_request image_data, step2_request raw]"
    by (cases r2) (auto simp add: extract_text_def split: sum.splits)
  moreover have "user_content (step2_request raw)
             = Some (PStr (py ''Extract driver's license information from this text:''
                           @ [NEWLINE, NEWLINE] @ raw))"
    by (simp add: user_content_def step2_request_def dict_get_def py_def)
  ultimately show ?thesis
    by simp
qed

theorem forced_extraction_proceeds_witness:
  "snd (extract_text (demo_env (Inr [Some (py ''NO_LICENSE_DETECTED'')]) (Inr [Some (py ''Name: Jane Doe'')]))
                     (demo_request (py ''AAAA'') (PBool True)))
   = [step1_request (py ''AAAA''), step2_request (py ''NO_LICENSE_DETECTED'')]
   \<and> user_content (step2_request (py ''NO_LICENSE_DETECTED''))
       = Some (PStr (py ''Extract driver's license information from this text:''
                     @ [NEWLINE, NEWLINE] @ py ''NO_LICENSE_DETECTED''))"
proof -
  let ?e = "demo_env (Inr [Some (py ''NO_LICENSE_DETECTED'')]) (Inr [Some (py ''Name: Jane Doe'')])"
  have read: "read_request (demo_request (py ''AAAA'') (PBool True)) = Continue (py ''AAAA'', PBool True)"
    by (simp add: demo_request_read AAAA_bare)
  have first: "remote ?e [] (step1_request (py ''AAAA'')) = Inr (Some (py ''NO_LICENSE_DETECTED'') # [])"
    by (simp add: demo_env_def)
  have sentinel: "py_strip (py ''NO_LICENSE_DETECTED'') = py ''NO_LICENSE_DETECTED''"
    by (simp add: py_strip_def isspace_def py_def)
  have forced: "truthy (PBool True)"
    by simp
  from forced_extraction_proceeds [OF read first sentinel forced]
  show ?thesis .
qed

text \<open>
  Claim C8. Whatever the request and the service, the handler returns a response: its
  status code is 200 and its body has a \<^verbatim>\<open>status\<close> that is \<^verbatim>\<open>success\<close> or \<^verbatim>\<open>error\<close>.
  An exception that leaves the body of the outer \<^verbatim>\<open>try\<close> is turned into the error dict
  with the message \<^verbatim>\<open>Server error:\<close> followed by the text of the exception.
\<close>

theorem handler_always_answers:
  "(\<exists>j calls. extract_text e request_json = (jsonify j, calls)
       \<and> (dict_get j ''status'' = Some (PStr (py ''success''))
          \<or> dict_get j ''status'' = Some (PStr (py ''error''))))
   \<and> status_code (fst (extract_text e request_json)) = 200
   \<and> (extract_text_try e request_json = (Inl ex, calls') \<longrightarrow>
        extract_text e request_json =
          (jsonify (PDict [(py ''status'', PStr (py ''error'')),
                           (py ''message'', PStr (py ''Server error: '' @ str_exn ex))]),
           calls'))"
proof -
  obtain j calls where j: "extract_text e request_json = (jsonify j, calls)"
    and "dict_get j ''status'' = Some (PStr (py ''error''))
        \<or> (dict_get j ''status'' = Some (PStr (py ''success''))
           \<and> (\<exists>fields. dict_get j ''data'' = Some (PDict fields) \<and> fields \<noteq> []))"
    using extract_text_outcome [of e request_json] by blast
  then have "\<exists>j calls. extract_text e request_json = (jsonify j, calls)
       \<and> (dict_get j ''status'' = Some (PStr (py ''success''))
          \<or> dict_get j ''status'' = Some (PStr (py ''error'')))"
    by blast
  moreover have "status_code (fst (extract_text e request_json)) = 200"
    using j by (simp add: jsonify_def)
  ultimately show ?thesis
    by (simp add: extract_text_def)
qed

theorem handler_always_answers_witness:
  "extract_text (demo_env (Inr []) (Inr [])) (Inr (PDict [(py ''image'', PInt 5)]))
   = (jsonify (PDict [(py ''status'', PStr (py ''error'')),
                      (py ''message'',
                         PStr (py ''Server error: object of type '' @ [QUOTE] @ py ''int'' @ [QUOTE]
                               @ py '' has no len()''))]),
      [])"
proof -
  have "extract_text_try (demo_env (Inr []) (Inr [])) (Inr (PDict [(py ''image'', PInt 5)]))
          = (Inl (no_len (PInt 5)), [])"
    by (simp add: extract_text_try_def read_request_dict)
  with handler_always_answers
         [of "demo_env (Inr []) (Inr [])" "Inr (PDict [(py ''image'', PInt 5)])" "no_len (PInt 5)" "[]"]
  show ?thesis
    by (simp add: no_len_def py_def)
qed

section \<open>The printed durations\<close>














end
